theory Spec2Isabelle
  imports Main "HOL-Library.Word"
begin

section \<open>The 3scale Istio adapter: authorization handler\<close>

text \<open>
  A shallow embedding of \<^verbatim>\<open>pkg/threescale/threescale.go\<close>: the gRPC handler
  \<^verbatim>\<open>HandleAuthorization\<close>, the decision function \<^verbatim>\<open>isAuthorized\<close>, the rule matcher
  \<^verbatim>\<open>generateMetrics\<close> and the status helpers. Go strings are byte lists, a Go
  \<^verbatim>\<open>error\<close> is the text its \<^verbatim>\<open>Error()\<close> method returns, a pointer that the code
  may find nil is an \<open>option\<close>, and a nil pointer dereference is the outcome \<open>Panic\<close>.
\<close>

subsection \<open>Data model\<close>

type_synonym error = string

text \<open>What a Go function call does: it returns a value or it panics.\<close>

datatype 'a go = Return 'a | Panic

text \<open>The gRPC status codes of \<^verbatim>\<open>google/rpc\<close>, in the order of their numbers 0 to 16.\<close>

datatype rpc_Code =
    OK | CANCELLED | UNKNOWN | INVALID_ARGUMENT | DEADLINE_EXCEEDED | NOT_FOUND
  | ALREADY_EXISTS | PERMISSION_DENIED | RESOURCE_EXHAUSTED | FAILED_PRECONDITION
  | ABORTED | OUT_OF_RANGE | UNIMPLEMENTED | INTERNAL | UNAVAILABLE | DATA_LOSS
  | UNAUTHENTICATED

record rpc_Status =
  Code :: rpc_Code
  Message :: string

text \<open>
  \<^verbatim>\<open>v1beta1.CheckResult\<close>: \<^verbatim>\<open>ValidDuration\<close> is a \<^verbatim>\<open>time.Duration\<close> (an int64 of
  nanoseconds), \<^verbatim>\<open>ValidUseCount\<close> an int32.
\<close>

record v1beta1_CheckResult =
  Status :: rpc_Status
  ValidDuration :: "64 word"
  ValidUseCount :: "32 word"

text \<open>
  An attribute value of the policy API is a one-of; the adapter only ever reads it through
  \<^verbatim>\<open>GetStringValue\<close>, so every variant that is not a string is \<open>OtherValue\<close>.
\<close>

datatype v1beta1_Value = StringValue string | OtherValue

text \<open>The authorization template's messages (the fields the adapter reads).\<close>

record SubjectMsg =
  User :: string
  Groups :: string
  Properties :: "string \<rightharpoonup> v1beta1_Value"

record ActionMsg =
  Namespace :: string
  Service :: string
  Method :: string
  Path :: string

record InstanceMsg =
  Name :: string
  Subject :: "SubjectMsg option"
  Action :: "ActionMsg option"

record types_Any =
  TypeUrl :: string
  AnyValue :: "8 word list"

record HandleAuthorizationRequest =
  Instance :: "InstanceMsg option"
  AdapterConfig :: "types_Any option"
  DedupId :: string

text \<open>\<^verbatim>\<open>config.Params\<close>, the adapter configuration (\<^verbatim>\<open>config/config.pb.go\<close>).\<close>

record config_Params =
  ServiceId :: string
  SystemUrl :: string
  BackendUrl :: string
  AccessToken :: string
  ServiceToken :: string

text \<open>
  The proxy configuration of the 3scale system client (the fields the adapter reads).
  \<^verbatim>\<open>Delta\<close> is an int64; \<^verbatim>\<open>int(pr.Delta)\<close> keeps all 64 bits where Go's \<^verbatim>\<open>int\<close>
  is 64 bits wide, which is what the model takes.
\<close>

record sysC_ProxyRule =
  Pattern :: string
  HTTPMethod :: string
  MetricSystemName :: string
  Delta :: "64 word"

record sysC_Backend =
  Endpoint :: string
  Host :: string

record sysC_ContentProxy =
  Backend :: sysC_Backend
  ProxyRules :: "sysC_ProxyRule list"

record sysC_Content =
  BackendAuthenticationType :: string
  BackendAuthenticationValue :: string
  BackendVersion :: string
  Proxy :: sysC_ContentProxy

record sysC_ProxyConfig =
  Environment :: string
  Content :: sysC_Content

record sysC_ProxyConfigElement =
  ProxyConfig :: sysC_ProxyConfig

text \<open>The request and response of the backend connector; \<^verbatim>\<open>api.Metrics\<close> is a Go
  \<^verbatim>\<open>map[string]int\<close>.\<close>

type_synonym api_Metrics = "string \<rightharpoonup> 64 word"

record api_Params =
  AppID :: string
  AppKey :: string
  UserKey :: string

record api_Transaction =
  Metrics :: api_Metrics
  Params :: api_Params

record api_ClientAuth =
  Type :: string
  Value :: string

record backend_Request =
  Auth :: api_ClientAuth
  ServiceID :: string
  Transaction :: api_Transaction

record backend_Response =
  Success :: bool
  Reason :: string

subsection \<open>Collaborators\<close>

text \<open>
  Library functions the handler calls and whose code is outside the repository are
  parameters of the model, so every theorem holds whatever they compute:
  \<^item> \<open>regexp_MatchString pattern s\<close> is Go's \<^verbatim>\<open>regexp.MatchString\<close>: \<open>Inl\<close> an error
    when the pattern does not compile, otherwise whether \<open>s\<close> contains a match;
  \<^item> \<open>strings_ToUpper\<close> is \<^verbatim>\<open>strings.ToUpper\<close>;
  \<^item> \<open>Metrics_Add\<close> is \<^verbatim>\<open>api.Metrics.Add\<close> of the 3scale client (the handler drops
    what it returns; the model keeps the map it leaves behind);
  \<^item> \<open>Params_Unmarshal\<close> is the generated protobuf decoder \<^verbatim>\<open>(*Params).Unmarshal\<close>,
    kept abstract: no property below depends on the wire format.
\<close>

record golib =
  regexp_MatchString :: "string \<Rightarrow> string \<Rightarrow> error + bool"
  strings_ToUpper :: "string \<Rightarrow> string"
  Metrics_Add :: "api_Metrics \<Rightarrow> string \<Rightarrow> 64 word \<Rightarrow> api_Metrics"
  Params_Unmarshal :: "8 word list \<Rightarrow> error + config_Params"

text \<open>
  The adapter's own collaborators are interface values held in \<^verbatim>\<open>AdapterConfig\<close>: the
  client builder, the optional proxy-configuration cache and the backend. Each is called
  at most once per request, so within one request it is a function of its arguments.
  \<open>'sc\<close> is the system client (\<^verbatim>\<open>sysC.ThreeScaleClient\<close>), \<open>'bc\<close> the backend
  client (\<^verbatim>\<open>threescale.Client\<close>).
\<close>

record ('sc, 'bc) Builder =
  BuildSystemClient :: "string \<Rightarrow> error + 'sc"
  BuildBackendClient :: "string \<Rightarrow> error + 'bc"

record 'sc ProxyConfigCache =
  Get :: "config_Params \<Rightarrow> 'sc \<Rightarrow> error + sysC_ProxyConfigElement"

record 'bc backend_Backend =
  AuthRep :: "backend_Request \<Rightarrow> 'bc \<Rightarrow> backend_Response \<times> error option"

record ('sc, 'bc) AdapterConfig =
  clientBuilder :: "('sc, 'bc) Builder"
  systemCache :: "'sc ProxyConfigCache option"
  backend :: "'bc backend_Backend"

record ('sc, 'bc) Threescale =
  conf :: "('sc, 'bc) AdapterConfig"

text \<open>
  The calls a request makes to its collaborators, in the order it makes them: building the
  system client, fetching the proxy configuration (from the cache or from the remote
  system), building the backend client, and the backend's AuthRep call.
\<close>

datatype ('sc, 'bc) call =
    BuildSystemClient_call string
  | ProxyConf_call config_Params 'sc
  | BuildBackendClient_call string
  | AuthRep_call backend_Request 'bc

subsection \<open>Constants\<close>

definition pathErr :: string where
  "pathErr = ''missing request path''"

definition unauthenticatedErr :: string where
  "unauthenticatedErr = ''no auth credentials provided or provided in invalid location''"

definition openIDTypeIdentifier :: string where
  "openIDTypeIdentifier = ''oauth''"

definition AppIDAttributeKey :: string where
  "AppIDAttributeKey = ''app_id''"

definition AppKeyAttributeKey :: string where
  "AppKeyAttributeKey = ''app_key''"

definition OIDCAttributeKey :: string where
  "OIDCAttributeKey = ''client_id''"

subsection \<open>Status constructors\<close>

text \<open>The constructors of Mixer's \<^verbatim>\<open>status\<close> package: a code and a message.\<close>

definition status_OK :: rpc_Status where
  "status_OK = \<lparr>Code = OK, Message = []\<rparr>"

definition WithInternal :: "string \<Rightarrow> rpc_Status" where
  "WithInternal message = \<lparr>Code = INTERNAL, Message = message\<rparr>"

definition WithInvalidArgument :: "string \<Rightarrow> rpc_Status" where
  "WithInvalidArgument message = \<lparr>Code = INVALID_ARGUMENT, Message = message\<rparr>"

definition WithPermissionDenied :: "string \<Rightarrow> rpc_Status" where
  "WithPermissionDenied message = \<lparr>Code = PERMISSION_DENIED, Message = message\<rparr>"

definition WithUnavailable :: "string \<Rightarrow> rpc_Status" where
  "WithUnavailable message = \<lparr>Code = UNAVAILABLE, Message = message\<rparr>"

definition WithUnknown :: "string \<Rightarrow> rpc_Status" where
  "WithUnknown message = \<lparr>Code = UNKNOWN, Message = message\<rparr>"

text \<open>
  \<^verbatim>\<open>GetStringValue\<close> on the result of a map lookup: the empty string for a missing key
  (a nil pointer) and for a value that is not a string.
\<close>

fun GetStringValue :: "v1beta1_Value option \<Rightarrow> string" where
  "GetStringValue None = []"
| "GetStringValue (Some (StringValue s)) = s"
| "GetStringValue (Some OtherValue) = []"

subsection \<open>rpcStatusErrorHandler\<close>

text \<open>
  With a user-facing message the error becomes \<^verbatim>\<open>fmt.Errorf("%s %s", msg, errMsg)\<close>,
  where \<^verbatim>\<open>errMsg\<close> is \<^verbatim>\<open>"- " + err.Error()\<close> or empty. Then \<^verbatim>\<open>err.Error()\<close> is
  called: on a nil error (empty message, nil error) that panics.
\<close>

definition rpcStatusErrorHandler ::
  "string \<Rightarrow> (string \<Rightarrow> rpc_Status) \<Rightarrow> error option \<Rightarrow> (rpc_Status \<times> error option) go" where
  "rpcStatusErrorHandler userFacingErrMsg fn err =
     (let err' =
        (if userFacingErrMsg \<noteq> [] then
           (let errMsg = (case err of Some e \<Rightarrow> ''- '' @ e | None \<Rightarrow> [])
            in Some (userFacingErrMsg @ '' '' @ errMsg))
         else err)
      in case err' of
           None \<Rightarrow> Panic
         | Some e \<Rightarrow> Return (fn e, Some e))"

subsection \<open>generateMetrics\<close>

text \<open>
  The loop over the proxy rules, with the metrics map as its accumulator. A rule whose
  pattern does not compile (\<open>Inl\<close>) leaves the map as it is and the loop goes on.
\<close>

fun generateMetrics_loop ::
  "golib \<Rightarrow> string \<Rightarrow> string \<Rightarrow> api_Metrics \<Rightarrow> sysC_ProxyRule list \<Rightarrow> api_Metrics" where
  "generateMetrics_loop lib path method metrics [] = metrics"
| "generateMetrics_loop lib path method metrics (pr # prs) =
     generateMetrics_loop lib path method
       (case regexp_MatchString lib (Pattern pr) path of
          Inr match \<Rightarrow>
            if match \<and> strings_ToUpper lib (HTTPMethod pr) = strings_ToUpper lib method
            then Metrics_Add lib metrics (MetricSystemName pr) (Delta pr)
            else metrics
        | Inl err \<Rightarrow> metrics)
       prs"

definition generateMetrics :: "golib \<Rightarrow> string \<Rightarrow> string \<Rightarrow> sysC_ProxyConfig \<Rightarrow> api_Metrics" where
  "generateMetrics lib path method proxyConf =
     generateMetrics_loop lib path method Map.empty (ProxyRules (Proxy (Content proxyConf)))"

subsection \<open>apiRespConverter\<close>

definition apiRespConverter :: "backend_Response \<times> error option \<Rightarrow> rpc_Status go" where
  "apiRespConverter r =
     (case r of (resp, e) \<Rightarrow>
        if e \<noteq> None then
          (case rpcStatusErrorHandler ''error calling 3scale backend'' WithUnknown e of
             Return (status, _) \<Rightarrow> Return status
           | Panic \<Rightarrow> Panic)
        else if \<not> Success resp then Return (WithPermissionDenied (Reason resp))
        else Return status_OK)"

subsection \<open>isAuthorized\<close>

text \<open>
  The credentials block of \<^verbatim>\<open>isAuthorized\<close> (the variables \<^verbatim>\<open>appID\<close>, \<^verbatim>\<open>appKey\<close> and
  \<^verbatim>\<open>userKey\<close> after the \<^verbatim>\<open>if request.Subject != nil\<close> block): all three stay empty
  when the subject is nil; with OIDC configured the application identifier is read under
  the OIDC key.
\<close>

definition credentials :: "InstanceMsg \<Rightarrow> sysC_ProxyConfig \<Rightarrow> string \<times> string \<times> string" where
  "credentials request proxyConf =
     (case Subject request of
        None \<Rightarrow> ([], [], [])
      | Some subject \<Rightarrow>
          (let appIdentifierKey =
             (if BackendVersion (Content proxyConf) = openIDTypeIdentifier
              then OIDCAttributeKey else AppIDAttributeKey)
           in (GetStringValue (Properties subject appIdentifierKey),
               GetStringValue (Properties subject AppKeyAttributeKey),
               User subject)))"

text \<open>
  \<^verbatim>\<open>isAuthorized\<close> returns the status and, here, the backend calls it made. Reading
  \<^verbatim>\<open>request.Action.Path\<close> panics on a nil action.
\<close>

definition isAuthorized ::
  "golib \<Rightarrow> ('sc, 'bc) Threescale \<Rightarrow> string \<Rightarrow> InstanceMsg \<Rightarrow> sysC_ProxyConfig \<Rightarrow> 'bc
     \<Rightarrow> (rpc_Status \<times> ('sc, 'bc) call list) go" where
  "isAuthorized lib s svcID request proxyConf client =
     (case Action request of
        None \<Rightarrow> Panic
      | Some action \<Rightarrow>
          if Path action = [] then Return (WithInvalidArgument pathErr, [])
          else
            (case credentials request proxyConf of (appID, appKey, userKey) \<Rightarrow>
               if appID = [] \<and> userKey = [] then
                 Return (WithPermissionDenied unauthenticatedErr, [])
               else
                 (let metrics = generateMetrics lib (Path action) (Method action) proxyConf
                  in if metrics = Map.empty then
                       Return (WithPermissionDenied
                         (''no matching mapping rule for request with method '' @ Method action
                            @ '' and path '' @ Path action), [])
                     else
                       (let authRepRequest =
                          \<lparr>Auth = \<lparr>Type = BackendAuthenticationType (Content proxyConf),
                                   Value = BackendAuthenticationValue (Content proxyConf)\<rparr>,
                           ServiceID = svcID,
                           Transaction =
                             \<lparr>Metrics = metrics,
                              Params = \<lparr>AppID = appID, AppKey = appKey, UserKey = userKey\<rparr>\<rparr>\<rparr>
                        in case apiRespConverter
                                  (AuthRep (backend (conf s)) authRepRequest client) of
                             Return status \<Rightarrow>
                               Return (status, [AuthRep_call authRepRequest client])
                           | Panic \<Rightarrow> Panic))))"

subsection \<open>parseConfigParams and extractProxyConf\<close>

definition parseConfigParams :: "golib \<Rightarrow> HandleAuthorizationRequest \<Rightarrow> error + config_Params" where
  "parseConfigParams lib r =
     (case AdapterConfig r of
        None \<Rightarrow> Inl ''internal error - adapter config is not available''
      | Some any \<Rightarrow>
          (case Params_Unmarshal lib (AnyValue any) of
             Inl err \<Rightarrow> Inl ''internal error - unable to unmarshal adapter config''
           | Inr cfg \<Rightarrow> Inr cfg))"

text \<open>
  \<^verbatim>\<open>GetFromRemote\<close> belongs to the adapter but its file is not part of the sources at
  hand; it is a parameter, like the cache's \<^verbatim>\<open>Get\<close>.
\<close>

definition extractProxyConf ::
  "(config_Params \<Rightarrow> 'sc \<Rightarrow> error + sysC_ProxyConfigElement) \<Rightarrow> ('sc, 'bc) Threescale
     \<Rightarrow> config_Params \<Rightarrow> 'sc \<Rightarrow> error + sysC_ProxyConfigElement" where
  "extractProxyConf GetFromRemote s cfg c =
     (case systemCache (conf s) of
        Some cache \<Rightarrow> Get cache cfg c
      | None \<Rightarrow> GetFromRemote cfg c)"

subsection \<open>HandleAuthorization\<close>

text \<open>
  The handler returns the check result, the error, and (here) the calls it made. The
  result starts as the zero value. Every failure before the decision assigns the status and
  the error from \<^verbatim>\<open>rpcStatusErrorHandler\<close> and jumps to the label \<^verbatim>\<open>out\<close>, which
  returns the result as it stands.
\<close>

definition zero_CheckResult :: v1beta1_CheckResult where
  "zero_CheckResult = \<lparr>Status = \<lparr>Code = OK, Message = []\<rparr>, ValidDuration = 0, ValidUseCount = 0\<rparr>"

definition time_Second :: "64 word" where
  "time_Second = 1000000000"

definition goto_out ::
  "(rpc_Status \<times> error option) go \<Rightarrow> ('sc, 'bc) call list
     \<Rightarrow> (v1beta1_CheckResult \<times> error option \<times> ('sc, 'bc) call list) go" where
  "goto_out handled calls =
     (case handled of
        Panic \<Rightarrow> Panic
      | Return (status, err) \<Rightarrow> Return (zero_CheckResult\<lparr>Status := status\<rparr>, err, calls))"

text \<open>
  The handler from the point where the service id is settled (the call of
  \<^verbatim>\<open>BuildSystemClient\<close>) to its end. \<^verbatim>\<open>*r.Instance\<close> panics on a nil instance.
\<close>

definition HandleAuthorization_resolved ::
  "golib \<Rightarrow> (config_Params \<Rightarrow> 'sc \<Rightarrow> error + sysC_ProxyConfigElement) \<Rightarrow> ('sc, 'bc) Threescale
     \<Rightarrow> HandleAuthorizationRequest \<Rightarrow> config_Params
     \<Rightarrow> (v1beta1_CheckResult \<times> error option \<times> ('sc, 'bc) call list) go" where
  "HandleAuthorization_resolved lib GetFromRemote s r cfg =
     (case BuildSystemClient (clientBuilder (conf s)) (SystemUrl cfg) of
        Inl err \<Rightarrow>
          goto_out
            (rpcStatusErrorHandler ''error building HTTP client for 3scale system''
               WithInvalidArgument (Some err))
            [BuildSystemClient_call (SystemUrl cfg)]
      | Inr systemClient \<Rightarrow>
          (case extractProxyConf GetFromRemote s cfg systemClient of
             Inl err \<Rightarrow>
               goto_out
                 (rpcStatusErrorHandler
                    ''currently unable to fetch required data from 3scale system''
                    WithUnavailable (Some err))
                 [BuildSystemClient_call (SystemUrl cfg), ProxyConf_call cfg systemClient]
           | Inr proxyConfElement \<Rightarrow>
               (let backendURL =
                  (if BackendUrl cfg = []
                   then Endpoint (Backend (Proxy (Content (ProxyConfig proxyConfElement))))
                   else BackendUrl cfg)
                in case BuildBackendClient (clientBuilder (conf s)) backendURL of
                     Inl err \<Rightarrow>
                       goto_out
                         (rpcStatusErrorHandler ''error creating 3scale backend client''
                            WithInvalidArgument (Some err))
                         [BuildSystemClient_call (SystemUrl cfg),
                          ProxyConf_call cfg systemClient,
                          BuildBackendClient_call backendURL]
                   | Inr backendClient \<Rightarrow>
                       (case Instance r of
                          None \<Rightarrow> Panic
                        | Some instance \<Rightarrow>
                            (case isAuthorized lib s (ServiceId cfg) instance
                                    (ProxyConfig proxyConfElement) backendClient of
                               Panic \<Rightarrow> Panic
                             | Return (status, calls) \<Rightarrow>
                                 Return
                                   (zero_CheckResult
                                      \<lparr>Status := status,
                                       ValidDuration := 0 * time_Second,
                                       ValidUseCount := - 1\<rparr>,
                                    None,
                                    [BuildSystemClient_call (SystemUrl cfg),
                                     ProxyConf_call cfg systemClient,
                                     BuildBackendClient_call backendURL] @ calls))))))"

text \<open>
  The head of the handler: the configuration is parsed, and an empty service id is
  replaced by the one of the request's action. \<^verbatim>\<open>r.Instance.Action.Service\<close> panics on
  a nil instance or action.
\<close>

definition HandleAuthorization ::
  "golib \<Rightarrow> (config_Params \<Rightarrow> 'sc \<Rightarrow> error + sysC_ProxyConfigElement) \<Rightarrow> ('sc, 'bc) Threescale
     \<Rightarrow> HandleAuthorizationRequest
     \<Rightarrow> (v1beta1_CheckResult \<times> error option \<times> ('sc, 'bc) call list) go" where
  "HandleAuthorization lib GetFromRemote s r =
     (case parseConfigParams lib r of
        Inl err \<Rightarrow> goto_out (rpcStatusErrorHandler [] WithInternal (Some err)) []
      | Inr cfg \<Rightarrow>
          if ServiceId cfg = [] then
            (case Instance r of
               None \<Rightarrow> Panic
             | Some instance \<Rightarrow>
                 (case Action instance of
                    None \<Rightarrow> Panic
                  | Some action \<Rightarrow>
                      if Service action = [] then
                        goto_out
                          (rpcStatusErrorHandler ''error. No Service ID provided''
                             WithInvalidArgument None)
                          []
                      else
                        HandleAuthorization_resolved lib GetFromRemote s r
                          (cfg\<lparr>ServiceId := Service action\<rparr>)))
          else HandleAuthorization_resolved lib GetFromRemote s r cfg)"

subsection \<open>What the specification says about matching and accumulation\<close>

text \<open>
  Modelled from the spec: \<^verbatim>\<open>api.Metrics.Add\<close> belongs to the 3scale client library,
  whose code is not among the sources. The specification says that deltas for the same
  metric name are summed rather than overwritten: the entry for the name is created with
  the value, or the value is added to the entry that is there.
\<close>

definition api_Metrics_Add :: "api_Metrics \<Rightarrow> string \<Rightarrow> 64 word \<Rightarrow> api_Metrics" where
  "api_Metrics_Add m name v =
     (case m name of
        None \<Rightarrow> m(name \<mapsto> v)
      | Some current \<Rightarrow> m(name \<mapsto> current + v))"

text \<open>
  The specification's matching condition: the pattern is a valid regular expression that
  finds a match in the path, and the methods are equal once both are upper-cased.
\<close>

definition rule_matches :: "golib \<Rightarrow> string \<Rightarrow> string \<Rightarrow> sysC_ProxyRule \<Rightarrow> bool" where
  "rule_matches lib path method pr =
     (regexp_MatchString lib (Pattern pr) path = Inr True
      \<and> strings_ToUpper lib (HTTPMethod pr) = strings_ToUpper lib method)"

text \<open>The deltas of the rules that match a request and name a given metric, in rule order.\<close>

definition matching_deltas ::
  "golib \<Rightarrow> string \<Rightarrow> string \<Rightarrow> string \<Rightarrow> sysC_ProxyRule list \<Rightarrow> 64 word list" where
  "matching_deltas lib path method name prs =
     map Delta (filter (\<lambda>pr. rule_matches lib path method pr \<and> MetricSystemName pr = name) prs)"

text \<open>A proxy configuration with its list of rules replaced.\<close>

definition with_rules :: "sysC_ProxyConfig \<Rightarrow> sysC_ProxyRule list \<Rightarrow> sysC_ProxyConfig" where
  "with_rules proxyConf prs =
     proxyConf\<lparr>Content := (Content proxyConf)\<lparr>Proxy := (Proxy (Content proxyConf))\<lparr>ProxyRules := prs\<rparr>\<rparr>\<rparr>"

subsection \<open>A concrete deployment\<close>

text \<open>
  Stand-ins for the collaborators, on which the theorems below are exercised: a matcher
  for literal patterns with search semantics (the pattern \<open>''[''\<close> does not compile),
  upper-casing of ASCII letters, a decoder that knows the empty message and the message
  that sets the service id to \<open>''7''\<close>, clients that are the URL they were built for, and
  a backend that knows the application \<open>''abc''\<close>.
\<close>

fun starts_with :: "string \<Rightarrow> string \<Rightarrow> bool" where
  "starts_with [] s = True"
| "starts_with (p # ps) [] = False"
| "starts_with (p # ps) (c # cs) = (p = c \<and> starts_with ps cs)"

fun contains_literal :: "string \<Rightarrow> string \<Rightarrow> bool" where
  "contains_literal p [] = (p = [])"
| "contains_literal p (c # cs) = (starts_with p (c # cs) \<or> contains_literal p cs)"

definition literal_MatchString :: "string \<Rightarrow> string \<Rightarrow> error + bool" where
  "literal_MatchString pattern s =
     (if pattern = ''['' then Inl ''error parsing regexp: missing closing ]''
      else Inr (contains_literal pattern s))"

definition ascii_ToUpper :: "string \<Rightarrow> string" where
  "ascii_ToUpper s =
     map (\<lambda>c. case map_of (zip ''abcdefghijklmnopqrstuvwxyz'' ''ABCDEFGHIJKLMNOPQRSTUVWXYZ'') c of
                 Some u \<Rightarrow> u
               | None \<Rightarrow> c) s"

definition demo_Unmarshal :: "8 word list \<Rightarrow> error + config_Params" where
  "demo_Unmarshal dAtA =
     (if dAtA = [] then
        Inr \<lparr>ServiceId = [], SystemUrl = [], BackendUrl = [], AccessToken = [],
             ServiceToken = []\<rparr>
      else if dAtA = [10, 1, 55] then
        Inr \<lparr>ServiceId = ''7'', SystemUrl = [], BackendUrl = [], AccessToken = [],
             ServiceToken = []\<rparr>
      else Inl ''proto: illegal wireType'')"

definition demo_lib :: golib where
  "demo_lib =
     \<lparr>regexp_MatchString = literal_MatchString,
      strings_ToUpper = ascii_ToUpper,
      Metrics_Add = api_Metrics_Add,
      Params_Unmarshal = demo_Unmarshal\<rparr>"

definition demo_rules :: "sysC_ProxyRule list" where
  "demo_rules =
     [\<lparr>Pattern = ''/v1/widgets'', HTTPMethod = ''GET'', MetricSystemName = ''hits'', Delta = 1\<rparr>,
      \<lparr>Pattern = ''['', HTTPMethod = ''GET'', MetricSystemName = ''hits'', Delta = 5\<rparr>,
      \<lparr>Pattern = ''/widgets'', HTTPMethod = ''get'', MetricSystemName = ''hits'', Delta = 2\<rparr>]"

definition demo_proxyConf :: "string \<Rightarrow> sysC_ProxyConfig" where
  "demo_proxyConf version =
     \<lparr>Environment = ''production'',
      Content =
        \<lparr>BackendAuthenticationType = ''service_token'',
         BackendAuthenticationValue = ''secret'',
         BackendVersion = version,
         Proxy =
           \<lparr>Backend = \<lparr>Endpoint = ''https://backend.example'', Host = ''backend.example''\<rparr>,
            ProxyRules = demo_rules\<rparr>\<rparr>\<rparr>"

definition demo_GetFromRemote :: "config_Params \<Rightarrow> string \<Rightarrow> error + sysC_ProxyConfigElement" where
  "demo_GetFromRemote cfg c = Inr \<lparr>ProxyConfig = demo_proxyConf ''oauth''\<rparr>"

definition demo_AuthRep :: "backend_Request \<Rightarrow> string \<Rightarrow> backend_Response \<times> error option" where
  "demo_AuthRep req c =
     (if AppID (Params (Transaction req)) = ''abc''
      then (\<lparr>Success = True, Reason = []\<rparr>, None)
      else (\<lparr>Success = False, Reason = ''application not found''\<rparr>, None))"

definition demo_server :: "(string, string) Threescale" where
  "demo_server =
     \<lparr>conf =
        \<lparr>clientBuilder = \<lparr>BuildSystemClient = Inr, BuildBackendClient = Inr\<rparr>,
         systemCache = None,
         backend = \<lparr>AuthRep = demo_AuthRep\<rparr>\<rparr>\<rparr>"

definition demo_subject :: "string \<Rightarrow> SubjectMsg" where
  "demo_subject user =
     \<lparr>User = user, Groups = [],
      Properties = [''app_id'' \<mapsto> StringValue ''spoofed'', ''client_id'' \<mapsto> StringValue ''abc'']\<rparr>"

definition demo_action :: "string \<Rightarrow> string \<Rightarrow> ActionMsg" where
  "demo_action method path =
     \<lparr>Namespace = ''default'', Service = ''7'', Method = method, Path = path\<rparr>"

definition demo_instance :: "SubjectMsg option \<Rightarrow> string \<Rightarrow> string \<Rightarrow> InstanceMsg" where
  "demo_instance subject method path =
     \<lparr>Name = ''threescale-authorization'', Subject = subject,
      Action = Some (demo_action method path)\<rparr>"

definition demo_request :: "8 word list option \<Rightarrow> string \<Rightarrow> HandleAuthorizationRequest" where
  "demo_request dAtA service =
     \<lparr>Instance =
        Some \<lparr>Name = ''threescale-authorization'', Subject = Some (demo_subject []),
              Action = Some \<lparr>Namespace = ''default'', Service = service, Method = ''GET'',
                              Path = ''/v1/widgets''\<rparr>\<rparr>,
      AdapterConfig =
        map_option
          (\<lambda>bytes. \<lparr>TypeUrl = ''type.googleapis.com/adapter.threescale.config.Params'',
                      AnyValue = bytes\<rparr>) dAtA,
      DedupId = ''1''\<rparr>"

text \<open>
  Collaborators that fail: a builder method that refuses every URL, a deployment built
  around two builder methods, a remote system that is down, and a request whose instance
  has no action.
\<close>

definition demo_refuse :: "error \<Rightarrow> string \<Rightarrow> error + string" where
  "demo_refuse e url = Inl e"

definition demo_server_with ::
  "(string \<Rightarrow> error + string) \<Rightarrow> (string \<Rightarrow> error + string) \<Rightarrow> (string, string) Threescale" where
  "demo_server_with buildSystem buildBackend =
     \<lparr>conf =
        \<lparr>clientBuilder = \<lparr>BuildSystemClient = buildSystem, BuildBackendClient = buildBackend\<rparr>,
         systemCache = None,
         backend = \<lparr>AuthRep = demo_AuthRep\<rparr>\<rparr>\<rparr>"

definition demo_system_down :: "config_Params \<Rightarrow> string \<Rightarrow> error + sysC_ProxyConfigElement" where
  "demo_system_down cfg c = Inl ''503 Service Unavailable''"

definition demo_request_no_action :: HandleAuthorizationRequest where
  "demo_request_no_action =
     \<lparr>Instance =
        Some \<lparr>Name = ''threescale-authorization'', Subject = Some (demo_subject []),
              Action = None\<rparr>,
      AdapterConfig =
        Some \<lparr>TypeUrl = ''type.googleapis.com/adapter.threescale.config.Params'',
              AnyValue = []\<rparr>,
      DedupId = ''1''\<rparr>"

section \<open>Properties\<close>

subsection \<open>Auxiliary facts\<close>

lemmas const_defs = pathErr_def unauthenticatedErr_def openIDTypeIdentifier_def
  AppIDAttributeKey_def AppKeyAttributeKey_def OIDCAttributeKey_def
  status_OK_def WithInternal_def WithInvalidArgument_def WithPermissionDenied_def
  WithUnavailable_def WithUnknown_def

lemmas demo_defs = demo_lib_def literal_MatchString_def ascii_ToUpper_def demo_rules_def
  demo_proxyConf_def demo_server_def demo_AuthRep_def demo_subject_def demo_action_def
  demo_instance_def demo_GetFromRemote_def demo_Unmarshal_def api_Metrics_Add_def
  demo_request_def demo_refuse_def demo_server_with_def demo_system_down_def
  demo_request_no_action_def

text \<open>The loop adds, in rule order, exactly the rules that satisfy the matching condition.\<close>

lemma generateMetrics_loop_filter:
  "generateMetrics_loop lib path method m prs =
     foldl (\<lambda>metrics pr. Metrics_Add lib metrics (MetricSystemName pr) (Delta pr)) m
       (filter (rule_matches lib path method) prs)"
  by (induction prs arbitrary: m) (auto simp: rule_matches_def split: sum.splits)

lemma ProxyRules_with_rules [simp]:
  "ProxyRules (Proxy (Content (with_rules proxyConf prs))) = prs"
  by (simp add: with_rules_def)

lemma api_Metrics_Add_apply:
  "api_Metrics_Add m n d name =
     (if n = name then Some ((case m name of None \<Rightarrow> 0 | Some v \<Rightarrow> v) + d) else m name)"
  by (simp add: api_Metrics_Add_def split: option.splits)

text \<open>What a run of accumulating additions leaves under one metric name.\<close>

lemma foldl_api_Metrics_Add:
  "foldl (\<lambda>metrics pr. api_Metrics_Add metrics (MetricSystemName pr) (Delta pr)) m prs name =
     (let ds = map Delta (filter (\<lambda>pr. MetricSystemName pr = name) prs)
      in if ds = [] then m name
         else Some ((case m name of None \<Rightarrow> 0 | Some v \<Rightarrow> v) + sum_list ds))"
proof (induction prs arbitrary: m)
  case Nil
  then show ?case by simp
next
  case (Cons pr prs)
  let ?f = "\<lambda>metrics pr. api_Metrics_Add metrics (MetricSystemName pr) (Delta pr)"
  let ?m = "api_Metrics_Add m (MetricSystemName pr) (Delta pr)"
  have "foldl ?f m (pr # prs) name = foldl ?f ?m prs name"
    by simp
  also have "\<dots> =
     (let ds = map Delta (filter (\<lambda>pr. MetricSystemName pr = name) prs)
      in if ds = [] then ?m name
         else Some ((case ?m name of None \<Rightarrow> 0 | Some v \<Rightarrow> v) + sum_list ds))"
    by (rule Cons.IH)
  also have "\<dots> =
     (let ds = map Delta (filter (\<lambda>pr. MetricSystemName pr = name) (pr # prs))
      in if ds = [] then m name
         else Some ((case m name of None \<Rightarrow> 0 | Some v \<Rightarrow> v) + sum_list ds))"
    by (simp add: Let_def api_Metrics_Add_apply add.assoc)
  finally show ?case .
qed

lemma rpcStatusErrorHandler_msg:
  "msg \<noteq> [] \<Longrightarrow> rpcStatusErrorHandler msg fn err =
     Return (fn (msg @ '' '' @ (case err of Some e \<Rightarrow> ''- '' @ e | None \<Rightarrow> [])),
             Some (msg @ '' '' @ (case err of Some e \<Rightarrow> ''- '' @ e | None \<Rightarrow> [])))"
  by (simp add: rpcStatusErrorHandler_def Let_def)

lemma rpcStatusErrorHandler_err:
  "rpcStatusErrorHandler [] fn (Some e) = Return (fn e, Some e)"
  by (simp add: rpcStatusErrorHandler_def)

lemma apiRespConverter_Return:
  "apiRespConverter (resp, e) =
     Return (case e of
               Some err \<Rightarrow> WithUnknown (''error calling 3scale backend - '' @ err)
             | None \<Rightarrow> if Success resp then status_OK else WithPermissionDenied (Reason resp))"
  by (simp add: apiRespConverter_def rpcStatusErrorHandler_msg split: option.splits)

lemma apiRespConverter_total: "\<exists>status. apiRespConverter r = Return status"
  by (cases r) (simp add: apiRespConverter_Return)

text \<open>
  When \<^verbatim>\<open>isAuthorized\<close> calls the backend it does so once, and the request carries the
  service id it was given and the credentials it extracted.
\<close>

lemma isAuthorized_calls:
  assumes "isAuthorized lib s svcID request proxyConf client = Return (status, calls)"
    and "AuthRep_call req c \<in> set calls"
  shows "ServiceID req = svcID
    \<and> (AppID (Params (Transaction req)), AppKey (Params (Transaction req)),
        UserKey (Params (Transaction req))) = credentials request proxyConf
    \<and> calls = [AuthRep_call req c]"
proof -
  obtain r where r: "\<And>q. apiRespConverter q = Return (r q)"
    using apiRespConverter_total by metis
  show ?thesis
    using assms
    by (auto simp: isAuthorized_def Let_def r split: option.splits if_splits prod.splits)
qed

text \<open>
  The deployment at work: a GET of \<open>/v1/widgets\<close> by a subject whose OIDC claim names the
  application \<open>abc\<close>, with OIDC configured.
\<close>

lemma demo_oidc_run:
  "isAuthorized demo_lib demo_server ''7''
     (demo_instance (Some (demo_subject [])) ''GET'' ''/v1/widgets'')
     (demo_proxyConf ''oauth'') ''https://backend.example'' =
   Return (\<lparr>Code = OK, Message = []\<rparr>,
     [AuthRep_call
        \<lparr>Auth = \<lparr>Type = ''service_token'', Value = ''secret''\<rparr>, ServiceID = ''7'',
          Transaction = \<lparr>Metrics = [''hits'' \<mapsto> 3],
            Params = \<lparr>AppID = ''abc'', AppKey = [], UserKey = []\<rparr>\<rparr>\<rparr>
        ''https://backend.example''])"
  by (simp add: isAuthorized_def generateMetrics_def credentials_def const_defs
      apiRespConverter_Return Let_def demo_defs)

subsection \<open>Credential selection\<close>

text \<open>
  C1. Whenever \<^verbatim>\<open>isAuthorized\<close> calls the backend for a request with a subject, the
  application identifier of the backend request is the string value of the subject's
  \<open>client_id\<close> property if the proxy configuration's backend version is \<open>oauth\<close>, and
  the string value of its \<open>app_id\<close> property otherwise. With OIDC configured the
  \<open>app_id\<close> property is never read.
\<close>

theorem oidc_app_id_from_claim:
  assumes "Subject request = Some subject"
    and "isAuthorized lib s svcID request proxyConf client = Return (status, calls)"
    and "AuthRep_call req c \<in> set calls"
  shows "AppID (Params (Transaction req)) =
     (if BackendVersion (Content proxyConf) = ''oauth''
      then GetStringValue (Properties subject ''client_id'')
      else GetStringValue (Properties subject ''app_id''))"
  using isAuthorized_calls [OF assms(2,3)] assms(1)
  by (simp add: credentials_def const_defs Let_def)

text \<open>
  The subject of the deployment carries \<open>app_id = spoofed\<close> and \<open>client_id = abc\<close>:
  under OIDC the backend is asked about \<open>abc\<close>.
\<close>

theorem oidc_app_id_from_claim_witness:
  "Subject (demo_instance (Some (demo_subject [])) ''GET'' ''/v1/widgets'')
     = Some (demo_subject [])
   \<and> Properties (demo_subject []) ''app_id'' = Some (StringValue ''spoofed'')
   \<and> isAuthorized demo_lib demo_server ''7''
        (demo_instance (Some (demo_subject [])) ''GET'' ''/v1/widgets'')
        (demo_proxyConf ''oauth'') ''https://backend.example'' =
      Return (\<lparr>Code = OK, Message = []\<rparr>,
        [AuthRep_call
           \<lparr>Auth = \<lparr>Type = ''service_token'', Value = ''secret''\<rparr>, ServiceID = ''7'',
             Transaction = \<lparr>Metrics = [''hits'' \<mapsto> 3],
               Params = \<lparr>AppID = ''abc'', AppKey = [], UserKey = []\<rparr>\<rparr>\<rparr>
           ''https://backend.example''])
   \<and> AppID (Params (Transaction
        \<lparr>Auth = \<lparr>Type = ''service_token'', Value = ''secret''\<rparr>, ServiceID = ''7'',
          Transaction = \<lparr>Metrics = [''hits'' \<mapsto> 3],
            Params = \<lparr>AppID = ''abc'', AppKey = [], UserKey = []\<rparr>\<rparr>\<rparr>)) =
      GetStringValue (Properties (demo_subject []) ''client_id'')"
proof -
  have subj: "Subject (demo_instance (Some (demo_subject [])) ''GET'' ''/v1/widgets'')
     = Some (demo_subject [])"
    by (simp add: demo_instance_def)
  have spoof: "Properties (demo_subject []) ''app_id'' = Some (StringValue ''spoofed'')"
    by (simp add: demo_subject_def)
  have oidc: "BackendVersion (Content (demo_proxyConf ''oauth'')) = ''oauth''"
    by (simp add: demo_proxyConf_def)
  show ?thesis
    using oidc_app_id_from_claim [OF subj demo_oidc_run, simplified oidc] subj spoof demo_oidc_run
    by simp
qed

subsection \<open>Rule matching\<close>

text \<open>
  C2. If the metrics map accumulates (its \<^verbatim>\<open>Add\<close> is the one the specification
  describes), then for every path, method and proxy configuration the map produced by
  \<^verbatim>\<open>generateMetrics\<close> holds, under each metric name, the sum of the deltas of all rules
  that match the request and name that metric, and holds nothing under a name for which no
  rule matches. Sums are sums of Go integers (64 bits).
\<close>

theorem generateMetrics_sums_deltas:
  assumes "Metrics_Add lib = api_Metrics_Add"
  shows "generateMetrics lib path method proxyConf name =
     (let ds = matching_deltas lib path method name (ProxyRules (Proxy (Content proxyConf)))
      in if ds = [] then None else Some (sum_list ds))"
  using assms
  by (simp add: generateMetrics_def generateMetrics_loop_filter foldl_api_Metrics_Add
      matching_deltas_def Let_def conj_commute)

text \<open>Two rules on \<open>hits\<close> with deltas 1 and 2 both match: the delta is 3.\<close>

theorem generateMetrics_sums_deltas_witness:
  "Metrics_Add demo_lib = api_Metrics_Add
   \<and> matching_deltas demo_lib ''/v1/widgets'' ''GET'' ''hits'' demo_rules = [1, 2]
   \<and> generateMetrics demo_lib ''/v1/widgets'' ''GET'' (demo_proxyConf ''1'') ''hits'' = Some 3"
proof -
  have h: "Metrics_Add demo_lib = api_Metrics_Add"
    by (simp add: demo_lib_def)
  have d: "matching_deltas demo_lib ''/v1/widgets'' ''GET'' ''hits'' demo_rules = [1, 2]"
    by (simp add: matching_deltas_def demo_rules_def rule_matches_def demo_lib_def
        literal_MatchString_def ascii_ToUpper_def)
  show ?thesis
    using h d
      generateMetrics_sums_deltas [OF h, of "''/v1/widgets''" "''GET''" "demo_proxyConf ''1''" "''hits''"]
    by (simp add: demo_proxyConf_def)
qed

text \<open>
  C6. The metric map is the result of adding, in rule order, the delta of exactly those
  rules whose pattern \<^verbatim>\<open>regexp.MatchString\<close> accepts and finds in the request path (the
  pattern and the path are passed to it as they are, so the match is a search, not a full
  match) and whose method equals the request method after upper-casing both. A rule whose
  pattern does not compile does not match, and the map is the same as if that rule were
  not in the list: the rules before and after it are evaluated as usual.
\<close>

theorem rule_contributes_iff_matches:
  "generateMetrics lib path method proxyConf =
     foldl (\<lambda>metrics pr. Metrics_Add lib metrics (MetricSystemName pr) (Delta pr)) Map.empty
       (filter (rule_matches lib path method) (ProxyRules (Proxy (Content proxyConf))))
   \<and> (regexp_MatchString lib (Pattern bad) path = Inl e \<longrightarrow>
        \<not> rule_matches lib path method bad
        \<and> generateMetrics lib path method (with_rules proxyConf (before @ bad # after)) =
          generateMetrics lib path method (with_rules proxyConf (before @ after)))"
  by (simp add: generateMetrics_def generateMetrics_loop_filter rule_matches_def)

text \<open>
  In the deployment the second rule has the pattern \<open>[\<close>; the first matches
  \<open>/v1/widgets\<close> as a whole, the third matches inside it and has its method in lower case.
\<close>

theorem rule_contributes_iff_matches_witness:
  "regexp_MatchString demo_lib (Pattern (demo_rules ! 1)) ''/v1/widgets'' =
     Inl ''error parsing regexp: missing closing ]''
   \<and> filter (rule_matches demo_lib ''/v1/widgets'' ''GET'') demo_rules =
       [demo_rules ! 0, demo_rules ! 2]
   \<and> generateMetrics demo_lib ''/v1/widgets'' ''GET''
        (with_rules (demo_proxyConf ''1'') ([demo_rules ! 0] @ demo_rules ! 1 # [demo_rules ! 2])) =
      generateMetrics demo_lib ''/v1/widgets'' ''GET''
        (with_rules (demo_proxyConf ''1'') ([demo_rules ! 0] @ [demo_rules ! 2]))
   \<and> generateMetrics demo_lib ''/v1/widgets'' ''GET'' (demo_proxyConf ''1'') = [''hits'' \<mapsto> 3]"
proof -
  have h: "regexp_MatchString demo_lib (Pattern (demo_rules ! 1)) ''/v1/widgets'' =
     Inl ''error parsing regexp: missing closing ]''"
    by (simp add: demo_defs)
  have f: "filter (rule_matches demo_lib ''/v1/widgets'' ''GET'') demo_rules =
      [demo_rules ! 0, demo_rules ! 2]"
    by (simp add: demo_defs rule_matches_def)
  have g: "generateMetrics demo_lib ''/v1/widgets'' ''GET'' (demo_proxyConf ''1'') = [''hits'' \<mapsto> 3]"
    by (simp add: demo_defs generateMetrics_def)
  from rule_contributes_iff_matches [of demo_lib "''/v1/widgets''" "''GET''" "demo_proxyConf ''1''"
      "demo_rules ! 1" "''error parsing regexp: missing closing ]''"
      "[demo_rules ! 0]" "[demo_rules ! 2]"] h f g
  show ?thesis by simp
qed

subsection \<open>Translation of the backend's answer\<close>

text \<open>
  C3. For every answer of the backend's AuthRep call: with a non-nil error the status is
  Unknown and its message is \<open>error calling 3scale backend - \<close> followed by the error;
  with a nil error and no success it is PermissionDenied with the backend's reason as its
  message; with a nil error and success it is OK. The conversion never panics.
\<close>

theorem apiRespConverter_cases:
  "(e = Some err \<longrightarrow>
      apiRespConverter (resp, e) =
        Return \<lparr>Code = UNKNOWN, Message = ''error calling 3scale backend - '' @ err\<rparr>)
   \<and> (e = None \<and> \<not> Success resp \<longrightarrow>
      apiRespConverter (resp, e) = Return \<lparr>Code = PERMISSION_DENIED, Message = Reason resp\<rparr>)
   \<and> (e = None \<and> Success resp \<longrightarrow>
      apiRespConverter (resp, e) = Return \<lparr>Code = OK, Message = []\<rparr>)"
  by (simp add: apiRespConverter_def rpcStatusErrorHandler_msg WithUnknown_def
      WithPermissionDenied_def status_OK_def)

theorem apiRespConverter_cases_witness:
  "apiRespConverter (\<lparr>Success = False, Reason = []\<rparr>, Some ''connection refused'') =
     Return \<lparr>Code = UNKNOWN, Message = ''error calling 3scale backend - connection refused''\<rparr>
   \<and> apiRespConverter (\<lparr>Success = False, Reason = ''usage limits are exceeded''\<rparr>, None) =
     Return \<lparr>Code = PERMISSION_DENIED, Message = ''usage limits are exceeded''\<rparr>
   \<and> apiRespConverter (\<lparr>Success = True, Reason = []\<rparr>, None) = Return \<lparr>Code = OK, Message = []\<rparr>"
  using
    apiRespConverter_cases [of "Some ''connection refused''" "''connection refused''"
      "\<lparr>Success = False, Reason = []\<rparr>"]
    apiRespConverter_cases [of None "[]" "\<lparr>Success = False, Reason = ''usage limits are exceeded''\<rparr>"]
    apiRespConverter_cases [of None "[]" "\<lparr>Success = True, Reason = []\<rparr>"]
  by simp

lemma isAuthorized_no_credentials:
  assumes "Action request = Some action"
    and "Path action \<noteq> []"
    and "credentials request proxyConf = ([], appKey, [])"
  shows "isAuthorized lib s svcID request proxyConf client =
     Return (WithPermissionDenied unauthenticatedErr, [])"
  using assms by (simp add: isAuthorized_def)

subsection \<open>Denials decided before the backend is asked\<close>

text \<open>
  C4. For every request with a non-empty path for which the extracted application
  identifier and the user key are both empty (the subject is nil, or its user is empty and
  the property read as application identifier, \<open>client_id\<close> under OIDC and \<open>app_id\<close>
  otherwise, has no string value), \<^verbatim>\<open>isAuthorized\<close> returns PermissionDenied with the
  missing-credentials message, which is not an Internal status, and calls no backend.
\<close>

theorem missing_credentials_denied:
  assumes "Action request = Some action"
    and "Path action \<noteq> []"
    and "case Subject request of
           None \<Rightarrow> True
         | Some subject \<Rightarrow>
             User subject = []
             \<and> GetStringValue (Properties subject
                  (if BackendVersion (Content proxyConf) = ''oauth'' then ''client_id'' else ''app_id''))
                = []"
  shows "isAuthorized lib s svcID request proxyConf client =
     Return (\<lparr>Code = PERMISSION_DENIED,
               Message = ''no auth credentials provided or provided in invalid location''\<rparr>, [])
   \<and> Code \<lparr>Code = PERMISSION_DENIED,
            Message = ''no auth credentials provided or provided in invalid location''\<rparr> \<noteq> INTERNAL"
proof -
  have "\<exists>appKey. credentials request proxyConf = ([], appKey, [])"
  proof (cases "Subject request")
    case None
    then show ?thesis by (simp add: credentials_def)
  next
    case (Some subject)
    with assms(3) show ?thesis
      by (auto simp: credentials_def const_defs Let_def split: if_splits)
  qed
  then obtain appKey where "credentials request proxyConf = ([], appKey, [])" ..
  from isAuthorized_no_credentials [OF assms(1,2) this]
  show ?thesis by (simp add: const_defs)
qed

text \<open>
  Under OIDC a subject with an \<open>app_id\<close> and an \<open>app_key\<close> but no \<open>client_id\<close> and no
  user has no credentials.
\<close>

theorem missing_credentials_denied_witness:
  "Action (demo_instance (Some \<lparr>User = [], Groups = ''admins'',
        Properties = [''app_id'' \<mapsto> StringValue ''abc'', ''app_key'' \<mapsto> StringValue ''k'']\<rparr>)
        ''GET'' ''/v1/widgets'') = Some (demo_action ''GET'' ''/v1/widgets'')
   \<and> Path (demo_action ''GET'' ''/v1/widgets'') \<noteq> []
   \<and> isAuthorized demo_lib demo_server ''7''
        (demo_instance (Some \<lparr>User = [], Groups = ''admins'',
           Properties = [''app_id'' \<mapsto> StringValue ''abc'', ''app_key'' \<mapsto> StringValue ''k'']\<rparr>)
           ''GET'' ''/v1/widgets'')
        (demo_proxyConf ''oauth'') ''https://backend.example'' =
      Return (\<lparr>Code = PERMISSION_DENIED,
                Message = ''no auth credentials provided or provided in invalid location''\<rparr>, [])"
proof -
  let ?subject = "\<lparr>User = [], Groups = ''admins'',
        Properties = [''app_id'' \<mapsto> StringValue ''abc'', ''app_key'' \<mapsto> StringValue ''k'']\<rparr>"
  let ?request = "demo_instance (Some ?subject) ''GET'' ''/v1/widgets''"
  have a: "Action ?request = Some (demo_action ''GET'' ''/v1/widgets'')"
    by (simp add: demo_instance_def)
  have p: "Path (demo_action ''GET'' ''/v1/widgets'') \<noteq> []"
    by (simp add: demo_action_def)
  have c: "case Subject ?request of
           None \<Rightarrow> True
         | Some subject \<Rightarrow>
             User subject = []
             \<and> GetStringValue (Properties subject
                  (if BackendVersion (Content (demo_proxyConf ''oauth'')) = ''oauth''
                   then ''client_id'' else ''app_id''))
                = []"
    by (simp add: demo_instance_def demo_proxyConf_def)
  show ?thesis
    using missing_credentials_denied [OF a p c, of demo_lib demo_server "''7''" "''https://backend.example''"] a p
    by simp
qed

text \<open>
  C10. For every request with a non-empty path and a nil subject, \<^verbatim>\<open>isAuthorized\<close>
  returns (it does not panic): application identifier, application key and user key are
  the empty string, and the result is PermissionDenied with the missing-credentials
  message, with no backend call.
\<close>

theorem nil_subject_denied:
  assumes "Subject request = None"
    and "Action request = Some action"
    and "Path action \<noteq> []"
  shows "credentials request proxyConf = ([], [], [])
   \<and> isAuthorized lib s svcID request proxyConf client =
     Return (\<lparr>Code = PERMISSION_DENIED,
               Message = ''no auth credentials provided or provided in invalid location''\<rparr>, [])"
proof -
  have c: "credentials request proxyConf = ([], [], [])"
    using assms(1) by (simp add: credentials_def)
  from c isAuthorized_no_credentials [OF assms(2,3) c]
  show ?thesis by (simp add: const_defs)
qed

theorem nil_subject_denied_witness:
  "Subject (demo_instance None ''GET'' ''/v1/widgets'') = None
   \<and> Action (demo_instance None ''GET'' ''/v1/widgets'') = Some (demo_action ''GET'' ''/v1/widgets'')
   \<and> Path (demo_action ''GET'' ''/v1/widgets'') \<noteq> []
   \<and> isAuthorized demo_lib demo_server ''7'' (demo_instance None ''GET'' ''/v1/widgets'')
        (demo_proxyConf ''1'') ''https://backend.example'' =
      Return (\<lparr>Code = PERMISSION_DENIED,
                Message = ''no auth credentials provided or provided in invalid location''\<rparr>, [])"
proof -
  have s: "Subject (demo_instance None ''GET'' ''/v1/widgets'') = None"
    by (simp add: demo_instance_def)
  have a: "Action (demo_instance None ''GET'' ''/v1/widgets'') = Some (demo_action ''GET'' ''/v1/widgets'')"
    by (simp add: demo_instance_def)
  have p: "Path (demo_action ''GET'' ''/v1/widgets'') \<noteq> []"
    by (simp add: demo_action_def)
  show ?thesis
    using nil_subject_denied [OF s a p, of "demo_proxyConf ''1''" demo_lib demo_server "''7''" "''https://backend.example''"] s a p
    by simp
qed

text \<open>Without a matching rule the metric map stays empty, whatever \<^verbatim>\<open>Add\<close> does.\<close>

lemma generateMetrics_no_match:
  assumes "\<forall>pr \<in> set (ProxyRules (Proxy (Content proxyConf))). \<not> rule_matches lib path method pr"
  shows "generateMetrics lib path method proxyConf = Map.empty"
proof -
  have "filter (rule_matches lib path method) (ProxyRules (Proxy (Content proxyConf))) = []"
    using assms by (simp add: filter_empty_conv)
  then show ?thesis
    by (simp add: generateMetrics_def generateMetrics_loop_filter)
qed

text \<open>
  C5. For every request with a non-empty path and a credential (an application identifier
  or a user key) whose method and path match no mapping rule of the proxy configuration,
  \<^verbatim>\<open>isAuthorized\<close> returns PermissionDenied with the message
  \<open>no matching mapping rule for request with method M and path P\<close>, where \<open>M\<close> is the
  request's method and \<open>P\<close> its path, and the backend's AuthRep is not called.
\<close>

theorem no_matching_rule_denied:
  assumes "Action request = Some action"
    and "Path action \<noteq> []"
    and "Subject request = Some subject"
    and "GetStringValue (Properties subject
           (if BackendVersion (Content proxyConf) = ''oauth'' then ''client_id'' else ''app_id''))
           \<noteq> []
         \<or> User subject \<noteq> []"
    and "\<forall>pr \<in> set (ProxyRules (Proxy (Content proxyConf))).
           \<not> rule_matches lib (Path action) (Method action) pr"
  shows "isAuthorized lib s svcID request proxyConf client =
     Return (\<lparr>Code = PERMISSION_DENIED,
               Message = ''no matching mapping rule for request with method '' @ Method action
                 @ '' and path '' @ Path action\<rparr>, [])"
proof -
  obtain appID appKey userKey where c: "credentials request proxyConf = (appID, appKey, userKey)"
    by (cases "credentials request proxyConf") auto
  with assms(3,4) have "\<not> (appID = [] \<and> userKey = [])"
    by (auto simp: credentials_def const_defs Let_def split: if_splits)
  with assms(1,2) c generateMetrics_no_match [OF assms(5)] show ?thesis
    by (simp add: isAuthorized_def const_defs)
qed

theorem no_matching_rule_denied_witness:
  "Action (demo_instance (Some (demo_subject [])) ''POST'' ''/v1/widgets'')
     = Some (demo_action ''POST'' ''/v1/widgets'')
   \<and> Path (demo_action ''POST'' ''/v1/widgets'') \<noteq> []
   \<and> Subject (demo_instance (Some (demo_subject [])) ''POST'' ''/v1/widgets'')
     = Some (demo_subject [])
   \<and> GetStringValue (Properties (demo_subject []) ''app_id'') = ''spoofed''
   \<and> filter (rule_matches demo_lib ''/v1/widgets'' ''POST'') demo_rules = []
   \<and> isAuthorized demo_lib demo_server ''7''
        (demo_instance (Some (demo_subject [])) ''POST'' ''/v1/widgets'')
        (demo_proxyConf ''1'') ''https://backend.example'' =
      Return (\<lparr>Code = PERMISSION_DENIED,
                Message = ''no matching mapping rule for request with method POST and path /v1/widgets''\<rparr>,
              [])"
proof -
  let ?request = "demo_instance (Some (demo_subject [])) ''POST'' ''/v1/widgets''"
  let ?action = "demo_action ''POST'' ''/v1/widgets''"
  have a: "Action ?request = Some ?action"
    by (simp add: demo_instance_def)
  have p: "Path ?action \<noteq> []"
    by (simp add: demo_action_def)
  have s: "Subject ?request = Some (demo_subject [])"
    by (simp add: demo_instance_def)
  have i: "GetStringValue (Properties (demo_subject []) ''app_id'') = ''spoofed''"
    by (simp add: demo_subject_def)
  have c: "GetStringValue (Properties (demo_subject [])
           (if BackendVersion (Content (demo_proxyConf ''1'')) = ''oauth'' then ''client_id'' else ''app_id''))
           \<noteq> []
         \<or> User (demo_subject []) \<noteq> []"
    by (simp add: demo_subject_def demo_proxyConf_def)
  have f: "filter (rule_matches demo_lib ''/v1/widgets'' ''POST'') demo_rules = []"
    by (simp add: demo_defs rule_matches_def)
  have n: "\<forall>pr \<in> set (ProxyRules (Proxy (Content (demo_proxyConf ''1'')))).
           \<not> rule_matches demo_lib (Path ?action) (Method ?action) pr"
    by (simp add: demo_defs rule_matches_def)
  show ?thesis
    using no_matching_rule_denied [OF a p s c n, of demo_server "''7''" "''https://backend.example''"] a p s i f
    by (simp add: demo_action_def)
qed

subsection \<open>The handler\<close>

lemma goto_out_Return:
  "goto_out (Return (status, err)) calls = Return (zero_CheckResult\<lparr>Status := status\<rparr>, err, calls)"
  by (simp add: goto_out_def)

text \<open>The status of isAuthorized is OK only after a backend call.\<close>

lemma isAuthorized_OK_calls:
  assumes "isAuthorized lib s svcID request proxyConf client = Return (status, calls)"
    and "Code status = OK"
  shows "\<exists>req. calls = [AuthRep_call req client]"
proof -
  obtain r where r: "\<And>q. apiRespConverter q = Return (r q)"
    using apiRespConverter_total by metis
  show ?thesis
    using assms
    by (auto simp: isAuthorized_def Let_def r const_defs split: option.splits if_splits prod.splits)
qed

text \<open>\<^verbatim>\<open>isAuthorized\<close> calls nothing but the backend, at most once, for the service id given.\<close>

lemma isAuthorized_calls_shape:
  assumes "isAuthorized lib s svcID request proxyConf client = Return (status, calls)"
  shows "calls = [] \<or> (\<exists>req. calls = [AuthRep_call req client] \<and> ServiceID req = svcID)"
proof -
  obtain r where r: "\<And>q. apiRespConverter q = Return (r q)"
    using apiRespConverter_total by metis
  show ?thesis
    using assms
    by (auto simp: isAuthorized_def Let_def r split: option.splits if_splits prod.splits)
qed

text \<open>
  From the point where the service id is settled: the validity hints, the meaning of an OK
  status, and the service id in the calls.
\<close>

lemma HandleAuthorization_resolved_validity:
  assumes "HandleAuthorization_resolved lib GetFromRemote s r cfg = Return (result, err, calls)"
  shows "ValidDuration result = 0 \<and> ValidUseCount result = (if err = None then - 1 else 0)"
  using assms
  by (auto simp: HandleAuthorization_resolved_def Let_def rpcStatusErrorHandler_msg goto_out_Return
      zero_CheckResult_def
      split: sum.splits option.splits go.splits prod.splits)

lemma HandleAuthorization_resolved_OK:
  assumes "HandleAuthorization_resolved lib GetFromRemote s r cfg = Return (result, err, calls)"
    and "Code (Status result) = OK"
  shows "err = None \<and> (\<exists>req c. AuthRep_call req c \<in> set calls)"
  using assms
  by (auto simp: HandleAuthorization_resolved_def Let_def rpcStatusErrorHandler_msg goto_out_Return
      zero_CheckResult_def const_defs
      split: sum.splits option.splits go.splits prod.splits dest!: isAuthorized_OK_calls)

lemma HandleAuthorization_resolved_service_id:
  assumes "HandleAuthorization_resolved lib GetFromRemote s r cfg = Return (result, err, calls)"
  shows "(\<forall>cfg' c. ProxyConf_call cfg' c \<in> set calls \<longrightarrow> cfg' = cfg)
       \<and> (\<forall>req c. AuthRep_call req c \<in> set calls \<longrightarrow> ServiceID req = ServiceId cfg)"
  using assms
  by (auto simp: HandleAuthorization_resolved_def Let_def rpcStatusErrorHandler_msg goto_out_Return
      split: sum.splits option.splits go.splits prod.splits dest!: isAuthorized_calls_shape)


text \<open>
  A handler that returns has failed at parsing, has failed at resolving the service id, or
  has gone on with a settled service id.
\<close>

lemma HandleAuthorization_cases:
  assumes "HandleAuthorization lib GetFromRemote s r = Return (result, err, calls)"
  shows "(\<exists>e. err = Some e \<and> result = zero_CheckResult\<lparr>Status := WithInternal e\<rparr> \<and> calls = [])
       \<or> (\<exists>e. err = Some e \<and> result = zero_CheckResult\<lparr>Status := WithInvalidArgument e\<rparr> \<and> calls = [])
       \<or> (\<exists>cfg. HandleAuthorization_resolved lib GetFromRemote s r cfg = Return (result, err, calls))"
  using assms
  by (auto simp: HandleAuthorization_def rpcStatusErrorHandler_msg rpcStatusErrorHandler_err
      goto_out_Return split: sum.splits option.splits if_splits)

text \<open>
  C7. Whenever the handler returns a check result whose status is OK, the pipeline has run to
  the backend's decision (the error is nil and AuthRep was called), the validity duration
  is zero and the validity use count is -1, a negative number.
\<close>

theorem ok_result_disables_caching:
  assumes "HandleAuthorization lib GetFromRemote s r = Return (result, err, calls)"
    and "Code (Status result) = OK"
  shows "ValidDuration result = 0 \<and> ValidUseCount result = - 1 \<and> sint (ValidUseCount result) < 0
       \<and> err = None \<and> (\<exists>req c. AuthRep_call req c \<in> set calls)"
proof -
  from HandleAuthorization_cases [OF assms(1)] assms(2)
  obtain cfg where res: "HandleAuthorization_resolved lib GetFromRemote s r cfg = Return (result, err, calls)"
    by (auto simp: zero_CheckResult_def const_defs)
  from HandleAuthorization_resolved_OK [OF res assms(2)] HandleAuthorization_resolved_validity [OF res]
  show ?thesis by simp
qed

lemma HandleAuthorization_settled:
  assumes "parseConfigParams lib r = Inr cfg0"
    and "ServiceId cfg0 \<noteq> [] \<and> cfg = cfg0
         \<or> ServiceId cfg0 = [] \<and> Instance r = Some instance \<and> Action instance = Some action
            \<and> Service action \<noteq> [] \<and> cfg = cfg0\<lparr>ServiceId := Service action\<rparr>"
  shows "HandleAuthorization lib GetFromRemote s r =
     HandleAuthorization_resolved lib GetFromRemote s r cfg"
  using assms by (auto simp: HandleAuthorization_def)

lemmas resolved_simps = HandleAuthorization_resolved_def rpcStatusErrorHandler_msg goto_out_Return
  zero_CheckResult_def time_Second_def Let_def const_defs

text \<open>
  C8, as the code has it. For every request on which the handler returns, the validity
  duration of the check result is zero, and the validity use count follows the stage the
  handler stops at. A failure at config parsing (Internal), at service-id resolution
  (InvalidArgument), at the construction of the system client (InvalidArgument), at the
  fetch of the proxy configuration (Unavailable) or at the construction of the backend
  client (InvalidArgument) leaves the use count 0 and returns the error with the result.
  Only a handler that reaches the authorization decision sets the use count to -1, and it
  then returns a nil error.
\<close>

theorem validity_hints_by_outcome:
  "(HandleAuthorization lib GetFromRemote s r = Return (result, err, calls) \<longrightarrow>
      ValidDuration result = 0 \<and> ValidUseCount result = (if err = None then - 1 else 0))
   \<and> (parseConfigParams lib r = Inl e \<longrightarrow>
      HandleAuthorization lib GetFromRemote s r =
        Return (\<lparr>Status = \<lparr>Code = INTERNAL, Message = e\<rparr>,
                  ValidDuration = 0, ValidUseCount = 0\<rparr>, Some e, []))
   \<and> (parseConfigParams lib r = Inr cfg0 \<and> ServiceId cfg0 = [] \<and> Instance r = Some instance
        \<and> Action instance = Some action \<and> Service action = [] \<longrightarrow>
      HandleAuthorization lib GetFromRemote s r =
        Return (\<lparr>Status = \<lparr>Code = INVALID_ARGUMENT, Message = ''error. No Service ID provided ''\<rparr>,
                  ValidDuration = 0, ValidUseCount = 0\<rparr>,
                Some ''error. No Service ID provided '', []))
   \<and> (parseConfigParams lib r = Inr cfg0
        \<and> (ServiceId cfg0 \<noteq> [] \<and> cfg = cfg0
           \<or> ServiceId cfg0 = [] \<and> Instance r = Some instance \<and> Action instance = Some action
              \<and> Service action \<noteq> [] \<and> cfg = cfg0\<lparr>ServiceId := Service action\<rparr>) \<longrightarrow>
      (BuildSystemClient (clientBuilder (conf s)) (SystemUrl cfg) = Inl e \<longrightarrow>
         HandleAuthorization lib GetFromRemote s r =
           Return (\<lparr>Status = \<lparr>Code = INVALID_ARGUMENT,
                       Message = ''error building HTTP client for 3scale system - '' @ e\<rparr>,
                     ValidDuration = 0, ValidUseCount = 0\<rparr>,
                   Some (''error building HTTP client for 3scale system - '' @ e),
                   [BuildSystemClient_call (SystemUrl cfg)]))
      \<and> (BuildSystemClient (clientBuilder (conf s)) (SystemUrl cfg) = Inr systemClient
           \<and> extractProxyConf GetFromRemote s cfg systemClient = Inl e \<longrightarrow>
         HandleAuthorization lib GetFromRemote s r =
           Return (\<lparr>Status = \<lparr>Code = UNAVAILABLE,
                       Message = ''currently unable to fetch required data from 3scale system - '' @ e\<rparr>,
                     ValidDuration = 0, ValidUseCount = 0\<rparr>,
                   Some (''currently unable to fetch required data from 3scale system - '' @ e),
                   [BuildSystemClient_call (SystemUrl cfg), ProxyConf_call cfg systemClient]))
      \<and> (BuildSystemClient (clientBuilder (conf s)) (SystemUrl cfg) = Inr systemClient
           \<and> extractProxyConf GetFromRemote s cfg systemClient = Inr proxyConfElement
           \<and> backendURL =
               (if BackendUrl cfg = []
                then Endpoint (Backend (Proxy (Content (ProxyConfig proxyConfElement))))
                else BackendUrl cfg)
           \<and> BuildBackendClient (clientBuilder (conf s)) backendURL = Inl e \<longrightarrow>
         HandleAuthorization lib GetFromRemote s r =
           Return (\<lparr>Status = \<lparr>Code = INVALID_ARGUMENT,
                       Message = ''error creating 3scale backend client - '' @ e\<rparr>,
                     ValidDuration = 0, ValidUseCount = 0\<rparr>,
                   Some (''error creating 3scale backend client - '' @ e),
                   [BuildSystemClient_call (SystemUrl cfg), ProxyConf_call cfg systemClient,
                    BuildBackendClient_call backendURL]))
      \<and> (BuildSystemClient (clientBuilder (conf s)) (SystemUrl cfg) = Inr systemClient
           \<and> extractProxyConf GetFromRemote s cfg systemClient = Inr proxyConfElement
           \<and> backendURL =
               (if BackendUrl cfg = []
                then Endpoint (Backend (Proxy (Content (ProxyConfig proxyConfElement))))
                else BackendUrl cfg)
           \<and> BuildBackendClient (clientBuilder (conf s)) backendURL = Inr backendClient
           \<and> Instance r = Some request
           \<and> isAuthorized lib s (ServiceId cfg) request (ProxyConfig proxyConfElement) backendClient
               = Return (status, decisionCalls) \<longrightarrow>
         HandleAuthorization lib GetFromRemote s r =
           Return (\<lparr>Status = status, ValidDuration = 0, ValidUseCount = - 1\<rparr>, None,
                   [BuildSystemClient_call (SystemUrl cfg), ProxyConf_call cfg systemClient,
                    BuildBackendClient_call backendURL] @ decisionCalls)))"
proof (intro conjI impI)
  assume "HandleAuthorization lib GetFromRemote s r = Return (result, err, calls)"
  from HandleAuthorization_cases [OF this]
  show "ValidDuration result = 0" and "ValidUseCount result = (if err = None then - 1 else 0)"
    by (auto simp: zero_CheckResult_def dest: HandleAuthorization_resolved_validity)
next
  assume "parseConfigParams lib r = Inl e"
  then show "HandleAuthorization lib GetFromRemote s r =
        Return (\<lparr>Status = \<lparr>Code = INTERNAL, Message = e\<rparr>,
                  ValidDuration = 0, ValidUseCount = 0\<rparr>, Some e, [])"
    by (simp add: HandleAuthorization_def rpcStatusErrorHandler_err goto_out_Return
        zero_CheckResult_def const_defs)
next
  assume "parseConfigParams lib r = Inr cfg0 \<and> ServiceId cfg0 = [] \<and> Instance r = Some instance
        \<and> Action instance = Some action \<and> Service action = []"
  then show "HandleAuthorization lib GetFromRemote s r =
        Return (\<lparr>Status = \<lparr>Code = INVALID_ARGUMENT, Message = ''error. No Service ID provided ''\<rparr>,
                  ValidDuration = 0, ValidUseCount = 0\<rparr>,
                Some ''error. No Service ID provided '', [])"
    by (simp add: HandleAuthorization_def rpcStatusErrorHandler_msg goto_out_Return
        zero_CheckResult_def const_defs)
next
  assume h: "parseConfigParams lib r = Inr cfg0
        \<and> (ServiceId cfg0 \<noteq> [] \<and> cfg = cfg0
           \<or> ServiceId cfg0 = [] \<and> Instance r = Some instance \<and> Action instance = Some action
              \<and> Service action \<noteq> [] \<and> cfg = cfg0\<lparr>ServiceId := Service action\<rparr>)"
  then have eq: "HandleAuthorization lib GetFromRemote s r =
     HandleAuthorization_resolved lib GetFromRemote s r cfg"
    using HandleAuthorization_settled by blast
  {
    assume "BuildSystemClient (clientBuilder (conf s)) (SystemUrl cfg) = Inl e"
    then show "HandleAuthorization lib GetFromRemote s r =
           Return (\<lparr>Status = \<lparr>Code = INVALID_ARGUMENT,
                       Message = ''error building HTTP client for 3scale system - '' @ e\<rparr>,
                     ValidDuration = 0, ValidUseCount = 0\<rparr>,
                   Some (''error building HTTP client for 3scale system - '' @ e),
                   [BuildSystemClient_call (SystemUrl cfg)])"
      by (simp add: eq resolved_simps)
  next
    assume "BuildSystemClient (clientBuilder (conf s)) (SystemUrl cfg) = Inr systemClient
           \<and> extractProxyConf GetFromRemote s cfg systemClient = Inl e"
    then show "HandleAuthorization lib GetFromRemote s r =
           Return (\<lparr>Status = \<lparr>Code = UNAVAILABLE,
                       Message = ''currently unable to fetch required data from 3scale system - '' @ e\<rparr>,
                     ValidDuration = 0, ValidUseCount = 0\<rparr>,
                   Some (''currently unable to fetch required data from 3scale system - '' @ e),
                   [BuildSystemClient_call (SystemUrl cfg), ProxyConf_call cfg systemClient])"
      by (simp add: eq resolved_simps)
  next
    assume "BuildSystemClient (clientBuilder (conf s)) (SystemUrl cfg) = Inr systemClient
           \<and> extractProxyConf GetFromRemote s cfg systemClient = Inr proxyConfElement
           \<and> backendURL =
               (if BackendUrl cfg = []
                then Endpoint (Backend (Proxy (Content (ProxyConfig proxyConfElement))))
                else BackendUrl cfg)
           \<and> BuildBackendClient (clientBuilder (conf s)) backendURL = Inl e"
    then show "HandleAuthorization lib GetFromRemote s r =
           Return (\<lparr>Status = \<lparr>Code = INVALID_ARGUMENT,
                       Message = ''error creating 3scale backend client - '' @ e\<rparr>,
                     ValidDuration = 0, ValidUseCount = 0\<rparr>,
                   Some (''error creating 3scale backend client - '' @ e),
                   [BuildSystemClient_call (SystemUrl cfg), ProxyConf_call cfg systemClient,
                    BuildBackendClient_call backendURL])"
      by (auto simp: eq resolved_simps)
  next
    assume "BuildSystemClient (clientBuilder (conf s)) (SystemUrl cfg) = Inr systemClient
           \<and> extractProxyConf GetFromRemote s cfg systemClient = Inr proxyConfElement
           \<and> backendURL =
               (if BackendUrl cfg = []
                then Endpoint (Backend (Proxy (Content (ProxyConfig proxyConfElement))))
                else BackendUrl cfg)
           \<and> BuildBackendClient (clientBuilder (conf s)) backendURL = Inr backendClient
           \<and> Instance r = Some request
           \<and> isAuthorized lib s (ServiceId cfg) request (ProxyConfig proxyConfElement) backendClient
               = Return (status, decisionCalls)"
    then show "HandleAuthorization lib GetFromRemote s r =
           Return (\<lparr>Status = status, ValidDuration = 0, ValidUseCount = - 1\<rparr>, None,
                   [BuildSystemClient_call (SystemUrl cfg), ProxyConf_call cfg systemClient,
                    BuildBackendClient_call backendURL] @ decisionCalls)"
      by (auto simp: eq resolved_simps)
  }
qed

text \<open>Runs of the handler in the deployment.\<close>

lemmas run_defs = HandleAuthorization_def HandleAuthorization_resolved_def parseConfigParams_def
  extractProxyConf_def isAuthorized_def generateMetrics_def credentials_def goto_out_def
  zero_CheckResult_def time_Second_def rpcStatusErrorHandler_def apiRespConverter_Return Let_def

lemma demo_run_empty_config:
  "HandleAuthorization demo_lib demo_GetFromRemote demo_server (demo_request (Some []) ''7'') =
     Return (\<lparr>Status = \<lparr>Code = OK, Message = []\<rparr>, ValidDuration = 0, ValidUseCount = - 1\<rparr>,
       None,
       [BuildSystemClient_call [],
        ProxyConf_call \<lparr>ServiceId = ''7'', SystemUrl = [], BackendUrl = [], AccessToken = [],
                        ServiceToken = []\<rparr> [],
        BuildBackendClient_call ''https://backend.example'',
        AuthRep_call
          \<lparr>Auth = \<lparr>Type = ''service_token'', Value = ''secret''\<rparr>, ServiceID = ''7'',
            Transaction = \<lparr>Metrics = [''hits'' \<mapsto> 3],
              Params = \<lparr>AppID = ''abc'', AppKey = [], UserKey = []\<rparr>\<rparr>\<rparr>
          ''https://backend.example''])"
  by (simp add: run_defs const_defs demo_defs)

text \<open>
  C8 as stated fails: a request without adapter configuration gets a check result whose
  validity use count is 0, which is not negative.
\<close>

theorem early_failure_use_count_not_negative:
  "HandleAuthorization demo_lib demo_GetFromRemote demo_server (demo_request None ''7'') =
     Return (\<lparr>Status = \<lparr>Code = INTERNAL,
                          Message = ''internal error - adapter config is not available''\<rparr>,
               ValidDuration = 0, ValidUseCount = 0\<rparr>,
             Some ''internal error - adapter config is not available'', [])
   \<and> \<not> sint (ValidUseCount
         \<lparr>Status = \<lparr>Code = INTERNAL,
                     Message = ''internal error - adapter config is not available''\<rparr>,
          ValidDuration = 0, ValidUseCount = 0\<rparr>) < 0"
  by (simp add: run_defs const_defs demo_defs)


text \<open>The successful run of the deployment.\<close>

theorem ok_result_disables_caching_witness:
  "HandleAuthorization demo_lib demo_GetFromRemote demo_server (demo_request (Some []) ''7'') =
     Return (\<lparr>Status = \<lparr>Code = OK, Message = []\<rparr>, ValidDuration = 0, ValidUseCount = - 1\<rparr>,
       None,
       [BuildSystemClient_call [],
        ProxyConf_call \<lparr>ServiceId = ''7'', SystemUrl = [], BackendUrl = [], AccessToken = [],
                        ServiceToken = []\<rparr> [],
        BuildBackendClient_call ''https://backend.example'',
        AuthRep_call
          \<lparr>Auth = \<lparr>Type = ''service_token'', Value = ''secret''\<rparr>, ServiceID = ''7'',
            Transaction = \<lparr>Metrics = [''hits'' \<mapsto> 3],
              Params = \<lparr>AppID = ''abc'', AppKey = [], UserKey = []\<rparr>\<rparr>\<rparr>
          ''https://backend.example''])
   \<and> Code (Status \<lparr>Status = \<lparr>Code = OK, Message = []\<rparr>, ValidDuration = 0,
                      ValidUseCount = - 1\<rparr>) = OK
   \<and> sint (ValidUseCount \<lparr>Status = \<lparr>Code = OK, Message = []\<rparr>, ValidDuration = 0,
                            ValidUseCount = - 1\<rparr>) = - 1"
  using ok_result_disables_caching [OF demo_run_empty_config] demo_run_empty_config
  by simp

text \<open>One run of the deployment for each stage the handler can stop at.\<close>

theorem validity_hints_by_outcome_witness:
  "HandleAuthorization demo_lib demo_GetFromRemote demo_server (demo_request (Some [8]) ''7'') =
     Return (\<lparr>Status = \<lparr>Code = INTERNAL,
                          Message = ''internal error - unable to unmarshal adapter config''\<rparr>,
               ValidDuration = 0, ValidUseCount = 0\<rparr>,
             Some ''internal error - unable to unmarshal adapter config'', [])
   \<and> HandleAuthorization demo_lib demo_GetFromRemote demo_server (demo_request (Some []) []) =
     Return (\<lparr>Status = \<lparr>Code = INVALID_ARGUMENT, Message = ''error. No Service ID provided ''\<rparr>,
               ValidDuration = 0, ValidUseCount = 0\<rparr>,
             Some ''error. No Service ID provided '', [])
   \<and> HandleAuthorization demo_lib demo_GetFromRemote
       (demo_server_with (demo_refuse ''invalid system url'') Inr) (demo_request (Some []) ''7'') =
     Return (\<lparr>Status = \<lparr>Code = INVALID_ARGUMENT,
                 Message = ''error building HTTP client for 3scale system - invalid system url''\<rparr>,
               ValidDuration = 0, ValidUseCount = 0\<rparr>,
             Some ''error building HTTP client for 3scale system - invalid system url'',
             [BuildSystemClient_call []])
   \<and> HandleAuthorization demo_lib demo_system_down demo_server (demo_request (Some []) ''7'') =
     Return (\<lparr>Status = \<lparr>Code = UNAVAILABLE,
                 Message = ''currently unable to fetch required data from 3scale system - 503 Service Unavailable''\<rparr>,
               ValidDuration = 0, ValidUseCount = 0\<rparr>,
             Some ''currently unable to fetch required data from 3scale system - 503 Service Unavailable'',
             [BuildSystemClient_call [],
              ProxyConf_call \<lparr>ServiceId = ''7'', SystemUrl = [], BackendUrl = [], AccessToken = [],
                              ServiceToken = []\<rparr> []])
   \<and> HandleAuthorization demo_lib demo_GetFromRemote
       (demo_server_with Inr (demo_refuse ''invalid backend url'')) (demo_request (Some []) ''7'') =
     Return (\<lparr>Status = \<lparr>Code = INVALID_ARGUMENT,
                 Message = ''error creating 3scale backend client - invalid backend url''\<rparr>,
               ValidDuration = 0, ValidUseCount = 0\<rparr>,
             Some ''error creating 3scale backend client - invalid backend url'',
             [BuildSystemClient_call [],
              ProxyConf_call \<lparr>ServiceId = ''7'', SystemUrl = [], BackendUrl = [], AccessToken = [],
                              ServiceToken = []\<rparr> [],
              BuildBackendClient_call ''https://backend.example''])
   \<and> HandleAuthorization demo_lib demo_GetFromRemote demo_server (demo_request (Some []) ''7'') =
     Return (\<lparr>Status = \<lparr>Code = OK, Message = []\<rparr>, ValidDuration = 0, ValidUseCount = - 1\<rparr>,
       None,
       [BuildSystemClient_call [],
        ProxyConf_call \<lparr>ServiceId = ''7'', SystemUrl = [], BackendUrl = [], AccessToken = [],
                        ServiceToken = []\<rparr> [],
        BuildBackendClient_call ''https://backend.example'',
        AuthRep_call
          \<lparr>Auth = \<lparr>Type = ''service_token'', Value = ''secret''\<rparr>, ServiceID = ''7'',
            Transaction = \<lparr>Metrics = [''hits'' \<mapsto> 3],
              Params = \<lparr>AppID = ''abc'', AppKey = [], UserKey = []\<rparr>\<rparr>\<rparr>
          ''https://backend.example''])"
proof -
  let ?parsed = "\<lparr>ServiceId = [], SystemUrl = [], BackendUrl = [], AccessToken = [], ServiceToken = []\<rparr>"
  let ?settled = "\<lparr>ServiceId = ''7'', SystemUrl = [], BackendUrl = [], AccessToken = [], ServiceToken = []\<rparr>"
  let ?action = "\<lambda>service. \<lparr>Namespace = ''default'', Service = service, Method = ''GET'',
                              Path = ''/v1/widgets''\<rparr>"
  let ?instance = "\<lambda>service. \<lparr>Name = ''threescale-authorization'', Subject = Some (demo_subject []),
              Action = Some (?action service)\<rparr>"
  have parse_fails: "parseConfigParams demo_lib (demo_request (Some [8]) ''7'') =
      Inl ''internal error - unable to unmarshal adapter config''"
    by (simp add: parseConfigParams_def demo_defs)
  have no_id: "parseConfigParams demo_lib (demo_request (Some []) []) = Inr ?parsed
      \<and> ServiceId ?parsed = [] \<and> Instance (demo_request (Some []) []) = Some (?instance [])
      \<and> Action (?instance []) = Some (?action []) \<and> Service (?action []) = []"
    by (intro conjI) (simp_all add: parseConfigParams_def demo_defs)
  have settled: "parseConfigParams demo_lib (demo_request (Some []) ''7'') = Inr ?parsed
      \<and> (ServiceId ?parsed \<noteq> [] \<and> ?settled = ?parsed
         \<or> ServiceId ?parsed = [] \<and> Instance (demo_request (Some []) ''7'') = Some (?instance ''7'')
            \<and> Action (?instance ''7'') = Some (?action ''7'') \<and> Service (?action ''7'') \<noteq> []
            \<and> ?settled = ?parsed\<lparr>ServiceId := Service (?action ''7'')\<rparr>)"
    by (intro conjI disjI2) (simp_all add: parseConfigParams_def demo_defs)
  have system_fails:
    "BuildSystemClient (clientBuilder (conf (demo_server_with (demo_refuse ''invalid system url'') Inr)))
       (SystemUrl ?settled) = Inl ''invalid system url''"
    by (simp add: demo_defs)
  have fetch_fails:
    "BuildSystemClient (clientBuilder (conf demo_server)) (SystemUrl ?settled) = Inr []
     \<and> extractProxyConf demo_system_down demo_server ?settled [] = Inl ''503 Service Unavailable''"
    by (intro conjI) (simp_all add: extractProxyConf_def demo_defs)
  have backend_fails:
    "BuildSystemClient (clientBuilder (conf (demo_server_with Inr (demo_refuse ''invalid backend url''))))
       (SystemUrl ?settled) = Inr []
     \<and> extractProxyConf demo_GetFromRemote (demo_server_with Inr (demo_refuse ''invalid backend url''))
         ?settled [] = Inr \<lparr>ProxyConfig = demo_proxyConf ''oauth''\<rparr>
     \<and> ''https://backend.example'' =
         (if BackendUrl ?settled = []
          then Endpoint (Backend (Proxy (Content (ProxyConfig \<lparr>ProxyConfig = demo_proxyConf ''oauth''\<rparr>))))
          else BackendUrl ?settled)
     \<and> BuildBackendClient (clientBuilder (conf (demo_server_with Inr (demo_refuse ''invalid backend url''))))
         ''https://backend.example'' = Inl ''invalid backend url''"
    by (intro conjI) (simp_all add: extractProxyConf_def demo_defs)
  have decides:
    "BuildSystemClient (clientBuilder (conf demo_server)) (SystemUrl ?settled) = Inr []
     \<and> extractProxyConf demo_GetFromRemote demo_server ?settled [] = Inr \<lparr>ProxyConfig = demo_proxyConf ''oauth''\<rparr>
     \<and> ''https://backend.example'' =
         (if BackendUrl ?settled = []
          then Endpoint (Backend (Proxy (Content (ProxyConfig \<lparr>ProxyConfig = demo_proxyConf ''oauth''\<rparr>))))
          else BackendUrl ?settled)
     \<and> BuildBackendClient (clientBuilder (conf demo_server)) ''https://backend.example''
         = Inr ''https://backend.example''
     \<and> Instance (demo_request (Some []) ''7'') =
         Some (demo_instance (Some (demo_subject [])) ''GET'' ''/v1/widgets'')
     \<and> isAuthorized demo_lib demo_server (ServiceId ?settled)
         (demo_instance (Some (demo_subject [])) ''GET'' ''/v1/widgets'')
         (ProxyConfig \<lparr>ProxyConfig = demo_proxyConf ''oauth''\<rparr>) ''https://backend.example'' =
         Return (\<lparr>Code = OK, Message = []\<rparr>,
           [AuthRep_call
              \<lparr>Auth = \<lparr>Type = ''service_token'', Value = ''secret''\<rparr>, ServiceID = ''7'',
                Transaction = \<lparr>Metrics = [''hits'' \<mapsto> 3],
                  Params = \<lparr>AppID = ''abc'', AppKey = [], UserKey = []\<rparr>\<rparr>\<rparr>
              ''https://backend.example''])"
    using demo_oidc_run
    by (intro conjI)
      (simp_all add: extractProxyConf_def demo_GetFromRemote_def demo_server_def demo_request_def
        demo_instance_def demo_action_def demo_proxyConf_def)
  from
    validity_hints_by_outcome [where GetFromRemote = demo_GetFromRemote and s = demo_server,
      THEN conjunct2, THEN conjunct1, THEN mp, OF parse_fails]
    validity_hints_by_outcome [where GetFromRemote = demo_GetFromRemote and s = demo_server,
      THEN conjunct2, THEN conjunct2, THEN conjunct1, THEN mp, OF no_id]
    validity_hints_by_outcome [where GetFromRemote = demo_GetFromRemote,
      THEN conjunct2, THEN conjunct2, THEN conjunct2, THEN mp, OF settled,
      THEN conjunct1, THEN mp, OF system_fails]
    validity_hints_by_outcome [THEN conjunct2, THEN conjunct2, THEN conjunct2, THEN mp, OF settled,
      THEN conjunct2, THEN conjunct1, THEN mp, OF fetch_fails]
    validity_hints_by_outcome [THEN conjunct2, THEN conjunct2, THEN conjunct2, THEN mp, OF settled,
      THEN conjunct2, THEN conjunct2, THEN conjunct1, THEN mp, OF backend_fails]
    validity_hints_by_outcome [THEN conjunct2, THEN conjunct2, THEN conjunct2, THEN mp, OF settled,
      THEN conjunct2, THEN conjunct2, THEN conjunct2, THEN mp, OF decides]
  show ?thesis by simp
qed

text \<open>
  With an action in the request, an empty configured service id is replaced by the
  action's service, and an empty service there ends the request before any call.
\<close>

lemma service_id_from_action:
  assumes "parseConfigParams lib r = Inr cfg"
    and "ServiceId cfg = []"
    and "Instance r = Some instance"
    and "Action instance = Some action"
  shows "(Service action = [] \<longrightarrow>
           HandleAuthorization lib GetFromRemote s r =
             Return (\<lparr>Status = \<lparr>Code = INVALID_ARGUMENT, Message = ''error. No Service ID provided ''\<rparr>,
                       ValidDuration = 0, ValidUseCount = 0\<rparr>,
                     Some ''error. No Service ID provided '', []))
       \<and> (Service action \<noteq> [] \<longrightarrow>
           HandleAuthorization lib GetFromRemote s r =
             HandleAuthorization_resolved lib GetFromRemote s r (cfg\<lparr>ServiceId := Service action\<rparr>)
           \<and> (\<forall>result err calls.
                 HandleAuthorization lib GetFromRemote s r = Return (result, err, calls) \<longrightarrow>
                 (\<forall>cfg' c. ProxyConf_call cfg' c \<in> set calls \<longrightarrow> ServiceId cfg' = Service action)
                 \<and> (\<forall>req c. AuthRep_call req c \<in> set calls \<longrightarrow> ServiceID req = Service action)))"
proof (intro conjI impI)
  assume "Service action = []"
  with assms show "HandleAuthorization lib GetFromRemote s r =
             Return (\<lparr>Status = \<lparr>Code = INVALID_ARGUMENT, Message = ''error. No Service ID provided ''\<rparr>,
                       ValidDuration = 0, ValidUseCount = 0\<rparr>,
                     Some ''error. No Service ID provided '', [])"
    by (simp add: HandleAuthorization_def rpcStatusErrorHandler_msg goto_out_Return
        zero_CheckResult_def const_defs)
next
  assume ne: "Service action \<noteq> []"
  with assms show eq: "HandleAuthorization lib GetFromRemote s r =
             HandleAuthorization_resolved lib GetFromRemote s r (cfg\<lparr>ServiceId := Service action\<rparr>)"
    by (simp add: HandleAuthorization_def)
  show "\<forall>result err calls.
                 HandleAuthorization lib GetFromRemote s r = Return (result, err, calls) \<longrightarrow>
                 (\<forall>cfg' c. ProxyConf_call cfg' c \<in> set calls \<longrightarrow> ServiceId cfg' = Service action)
                 \<and> (\<forall>req c. AuthRep_call req c \<in> set calls \<longrightarrow> ServiceID req = Service action)"
  proof (intro allI impI)
    fix result err calls
    assume "HandleAuthorization lib GetFromRemote s r = Return (result, err, calls)"
    with eq have "HandleAuthorization_resolved lib GetFromRemote s r (cfg\<lparr>ServiceId := Service action\<rparr>)
        = Return (result, err, calls)"
      by simp
    from HandleAuthorization_resolved_service_id [OF this]
    show "(\<forall>cfg' c. ProxyConf_call cfg' c \<in> set calls \<longrightarrow> ServiceId cfg' = Service action)
                 \<and> (\<forall>req c. AuthRep_call req c \<in> set calls \<longrightarrow> ServiceID req = Service action)"
      by auto
  qed
qed

text \<open>Without an instance or an action the read of the action's service panics.\<close>

lemma HandleAuthorization_no_action_panics:
  assumes "parseConfigParams lib r = Inr cfg"
    and "ServiceId cfg = []"
    and "Instance r = None \<or> (\<exists>instance. Instance r = Some instance \<and> Action instance = None)"
  shows "HandleAuthorization lib GetFromRemote s r = Panic"
  using assms by (auto simp: HandleAuthorization_def)

text \<open>
  C9. The handler reads \<^verbatim>\<open>r.Instance.Action.Service\<close> without a nil check, where the
  subject and the adapter configuration are checked for nil before they are read. A request
  whose configuration gives no service id and whose instance has no action has no service
  id in either place; the handler panics on it instead of returning InvalidArgument.
\<close>

theorem no_action_no_service_id_panics:
  "parseConfigParams demo_lib demo_request_no_action =
     Inr \<lparr>ServiceId = [], SystemUrl = [], BackendUrl = [], AccessToken = [], ServiceToken = []\<rparr>
   \<and> Instance demo_request_no_action =
     Some \<lparr>Name = ''threescale-authorization'', Subject = Some (demo_subject []), Action = None\<rparr>
   \<and> HandleAuthorization demo_lib demo_GetFromRemote demo_server demo_request_no_action = Panic"
  by (simp add: HandleAuthorization_def parseConfigParams_def demo_defs)

end
